theory Spec2Isabelle
  imports Complex_Main
begin

section \<open>JavaScript numbers\<close>

text \<open>
  A JavaScript \<^verbatim>\<open>number\<close> is an IEEE 754 binary64 value: \<^verbatim>\<open>NaN\<close>, an infinity or a
  zero with its sign bit (\<open>True\<close> for negative), or a finite value other than zero.
  Times, pixel coordinates, random numbers and the dice faces of the roll animation
  are such numbers. (The move budget and the value of the dice state, small whole
  numbers, are integers in the model.)
\<close>

datatype number = NaN | Infinity bool | Zero bool | Fin real

text \<open>
  Rounding to the nearest binary64 value, ties to the even significand. \<open>expo x\<close>
  is the exponent of the binade of \<open>x\<close>: the least \<open>k\<close> from \<open>-1022\<close> on with
  \<open>\<bar>x\<bar> < 2 powi (k + 1)\<close> (the subnormal numbers share the exponent \<open>-1022\<close>;
  1024 stands for a magnitude beyond every binade), so that \<open>2 powi (expo x - 52)\<close>
  is the distance between neighbouring values around \<open>x\<close>. A result of magnitude
  \<open>2 ^ 1024\<close> overflows to an infinity, a result that rounds to nothing underflows
  to a zero; both keep the sign of \<open>x\<close>.
\<close>

definition expo :: "real \<Rightarrow> int" where
  "expo x = (case find (\<lambda>k. \<bar>x\<bar> < 2 powi (k + 1)) [- 1022..1023] of
               Some k \<Rightarrow> k
             | None \<Rightarrow> 1024)"

definition round_half_even :: "real \<Rightarrow> int" where
  "round_half_even q =
     (let f = \<lfloor>q\<rfloor>
      in if q - of_int f < 1 / 2 then f
         else if 1 / 2 < q - of_int f then f + 1
         else if even f then f else f + 1)"

definition round64 :: "real \<Rightarrow> number" where
  "round64 x =
     (let u = 2 powi (expo x - 52);
          m = round_half_even (x / u)
      in if 2 ^ 1024 \<le> \<bar>of_int m * u\<bar> then Infinity (x < 0)
         else if m = 0 then Zero (x < 0)
         else Fin (of_int m * u))"

text \<open>The sign bit, and unary minus.\<close>

fun negative :: "number \<Rightarrow> bool" where
  "negative NaN = False"
| "negative (Infinity s) = s"
| "negative (Zero s) = s"
| "negative (Fin r) = (r < 0)"

fun num_neg :: "number \<Rightarrow> number" where
  "num_neg NaN = NaN"
| "num_neg (Infinity s) = Infinity (\<not> s)"
| "num_neg (Zero s) = Zero (\<not> s)"
| "num_neg (Fin r) = Fin (- r)"

text \<open>\<^verbatim>\<open>x < y\<close> (and \<^verbatim>\<open>y > x\<close>): false whenever an operand is \<^verbatim>\<open>NaN\<close>; the two
  zeros compare equal.\<close>

fun num_lt :: "number \<Rightarrow> number \<Rightarrow> bool" where
  "num_lt NaN y = False"
| "num_lt x NaN = False"
| "num_lt (Infinity s) (Infinity t) = (s \<and> \<not> t)"
| "num_lt (Infinity s) y = s"
| "num_lt x (Infinity t) = (\<not> t)"
| "num_lt (Zero s) (Zero t) = False"
| "num_lt (Zero s) (Fin b) = (0 < b)"
| "num_lt (Fin a) (Zero t) = (a < 0)"
| "num_lt (Fin a) (Fin b) = (a < b)"

text \<open>\<^verbatim>\<open>x + y\<close>, \<^verbatim>\<open>x - y\<close>, \<^verbatim>\<open>x * y\<close> and \<^verbatim>\<open>x / y\<close>: the exact result, rounded.
  An exact sum of zero is \<open>+0\<close>, unless both operands are \<open>-0\<close>; the sign of a
  product or quotient is the exclusive or of the operands' signs.\<close>

fun num_add :: "number \<Rightarrow> number \<Rightarrow> number" where
  "num_add NaN y = NaN"
| "num_add x NaN = NaN"
| "num_add (Infinity s) (Infinity t) = (if s = t then Infinity s else NaN)"
| "num_add (Infinity s) y = Infinity s"
| "num_add x (Infinity t) = Infinity t"
| "num_add (Zero s) (Zero t) = Zero (s \<and> t)"
| "num_add (Zero s) (Fin b) = Fin b"
| "num_add (Fin a) (Zero t) = Fin a"
| "num_add (Fin a) (Fin b) = (if a + b = 0 then Zero False else round64 (a + b))"

definition num_sub :: "number \<Rightarrow> number \<Rightarrow> number" where
  "num_sub x y = num_add x (num_neg y)"

fun num_mul :: "number \<Rightarrow> number \<Rightarrow> number" where
  "num_mul NaN y = NaN"
| "num_mul x NaN = NaN"
| "num_mul (Infinity s) (Zero t) = NaN"
| "num_mul (Zero s) (Infinity t) = NaN"
| "num_mul (Infinity s) y = Infinity (s \<noteq> negative y)"
| "num_mul x (Infinity t) = Infinity (negative x \<noteq> t)"
| "num_mul (Zero s) y = Zero (s \<noteq> negative y)"
| "num_mul x (Zero t) = Zero (negative x \<noteq> t)"
| "num_mul (Fin a) (Fin b) = round64 (a * b)"

fun num_div :: "number \<Rightarrow> number \<Rightarrow> number" where
  "num_div NaN y = NaN"
| "num_div x NaN = NaN"
| "num_div (Infinity s) (Infinity t) = NaN"
| "num_div (Zero s) (Zero t) = NaN"
| "num_div (Infinity s) y = Infinity (s \<noteq> negative y)"
| "num_div x (Infinity t) = Zero (negative x \<noteq> t)"
| "num_div (Zero s) (Fin b) = Zero (s \<noteq> (b < 0))"
| "num_div (Fin a) (Zero t) = Infinity ((a < 0) \<noteq> t)"
| "num_div (Fin a) (Fin b) = round64 (a / b)"

text \<open>\<^verbatim>\<open>x ** 2\<close>: \<^verbatim>\<open>NaN\<close> for \<^verbatim>\<open>NaN\<close>, \<open>+\<infinity>\<close> for an infinity, \<open>+0\<close> for a
  zero. For a finite \<open>x\<close> the language leaves the precision of \<^verbatim>\<open>**\<close> to the
  implementation; the model takes the exact square rounded to the nearest number,
  the value of \<^verbatim>\<open>x * x\<close>.\<close>

fun num_sq :: "number \<Rightarrow> number" where
  "num_sq NaN = NaN"
| "num_sq (Infinity s) = Infinity False"
| "num_sq (Zero s) = Zero False"
| "num_sq (Fin a) = round64 (a * a)"

text \<open>\<^verbatim>\<open>Math.floor(x)\<close>: the greatest whole number not above a finite \<open>x\<close>
  (which is a binary64 value again, \<open>+0\<close> for \<open>0 < x < 1\<close>); \<^verbatim>\<open>NaN\<close>, the
  infinities and the zeros are returned as they are.\<close>

fun num_floor :: "number \<Rightarrow> number" where
  "num_floor NaN = NaN"
| "num_floor (Infinity s) = Infinity s"
| "num_floor (Zero s) = Zero s"
| "num_floor (Fin a) = (if \<lfloor>a\<rfloor> = 0 then Zero False else Fin (of_int \<lfloor>a\<rfloor>))"

text \<open>A whole number of the model as a JavaScript number.\<close>

definition num_of_int :: "int \<Rightarrow> number" where
  "num_of_int n = (if n = 0 then Zero False else Fin (of_int n))"

text \<open>\<^verbatim>\<open>!x\<close> for a number: true of \<^verbatim>\<open>NaN\<close> and of the two zeros.\<close>

fun falsy :: "number \<Rightarrow> bool" where
  "falsy NaN = True"
| "falsy (Zero s) = True"
| "falsy (Infinity s) = False"
| "falsy (Fin r) = False"

section \<open>Data model (types.tsx)\<close>

text \<open>
  The enumerations of \<^verbatim>\<open>types.tsx\<close> become datatypes, the object types become
  records. Record fields carry a prefix naming their type where two types of the
  source share a field name (\<^verbatim>\<open>id\<close>, \<^verbatim>\<open>player\<close>, \<^verbatim>\<open>position\<close>, \<^verbatim>\<open>coins\<close>,
  \<^verbatim>\<open>state\<close>, \<^verbatim>\<open>value\<close>). JavaScript numbers that hold counters and grid
  indices are integers; pixel coordinates and times are binary64 numbers.
\<close>

datatype CellType = HOME | START | SAFE | NORMAL | FINISH | WALL

datatype PlayerId = RED | BLUE | YELLOW | GREEN

datatype PlayerState = NOT_STARTED | ROLLING | THINKING | MOVING | FINISHED | WON | LOST

datatype Colors = BLACK | WHITE | TRANSPARENT_LITERAL | C_RED | C_BLUE | C_YELLOW | C_GREEN

record Position =
  row :: nat
  col :: nat

record Coin =
  coin_id :: string
  coin_player :: PlayerId
  coin_position :: Position

record Cell =
  cell_id :: nat
  cell_position :: Position
  cell_type :: CellType
  cell_player :: "PlayerId option"
  cell_color :: Colors
  cell_coins :: "Coin list"

type_synonym BoardMatrix = "Cell list list"

record DiceState =
  dice_value :: int
  rolling :: bool

record Player =
  player_id :: PlayerId
  player_state :: PlayerState
  player_coins :: "Coin list"
  movesLeft :: int
  nextPossibleStates :: "PlayerState list"

record LudoGameState =
  currentPlayer :: PlayerId
  players :: "Player list"
  boardMatrix :: BoardMatrix
  started :: bool
  diceState :: DiceState


text \<open>
  What the source throws: reading a property of \<^verbatim>\<open>undefined\<close> (the result of a
  failed \<^verbatim>\<open>find\<close>) is a \<^verbatim>\<open>TypeError\<close>; the easing functions throw an
  \<^verbatim>\<open>Error\<close> that reports the offending argument.
\<close>

datatype error = TypeError | TimeGreaterThanOne number | TimeLessThanZero number

section \<open>Board model (data.helpers.tsx)\<close>

definition BOARD_SIZE :: nat where
  "BOARD_SIZE = 15"

definition getPlayerColor :: "PlayerId option \<Rightarrow> Colors" where
  "getPlayerColor player =
     (case player of
        Some RED \<Rightarrow> C_RED
      | Some BLUE \<Rightarrow> C_BLUE
      | Some YELLOW \<Rightarrow> C_YELLOW
      | Some GREEN \<Rightarrow> C_GREEN
      | None \<Rightarrow> WHITE)"

text \<open>
  \<^verbatim>\<open>uuid()\<close> is the version 4 (random) generator of the external \<^verbatim>\<open>uuid\<close>
  package. Its results are not a function of the program's inputs, so the model takes
  them as a parameter: a source \<open>src\<close> that lists the identifiers the generator will
  hand out, and a counter \<open>k\<close> of the calls made so far, threaded through every
  function that calls \<^verbatim>\<open>uuid()\<close>.
\<close>

type_synonym uuid_source = "nat \<Rightarrow> string"

definition uuid :: "uuid_source \<Rightarrow> nat \<Rightarrow> string \<times> nat" where
  "uuid src k = (src k, k + 1)"

text \<open>\<^verbatim>\<open>coins.push({ id: uuid(), player, position: { row, col } })\<close>\<close>

definition pushCoin ::
  "uuid_source \<Rightarrow> PlayerId \<Rightarrow> nat \<Rightarrow> nat \<Rightarrow> Coin list \<times> nat \<Rightarrow> Coin list \<times> nat" where
  "pushCoin src p r c st =
     (case st of (coins, k) \<Rightarrow>
        (case uuid src k of (i, k') \<Rightarrow>
           (coins @ [\<lparr>coin_id = i, coin_player = p,
                      coin_position = \<lparr>row = r, col = c\<rparr>\<rparr>], k')))"

definition createCoinInstance :: "uuid_source \<Rightarrow> nat \<Rightarrow> nat \<Rightarrow> nat \<Rightarrow> Coin list \<times> nat" where
  "createCoinInstance src r c k =
     (let st0 = ([], k);
          st1 = (if r = 2 then
                   (let a = (if c = 2 \<or> c = 3 then pushCoin src RED r c st0 else st0)
                    in (if c = 11 \<or> c = 12 then pushCoin src GREEN r c a else a))
                 else st0);
          st2 = (if r = 3 then
                   (let a = (if c = 2 \<or> c = 3 then pushCoin src RED r c st1 else st1)
                    in (if c = 11 \<or> c = 12 then pushCoin src GREEN r c a else a))
                 else st1);
          st3 = (if r = 11 then
                   (let a = (if c = 2 \<or> c = 3 then pushCoin src BLUE r c st2 else st2)
                    in (if c = 11 \<or> c = 12 then pushCoin src YELLOW r c a else a))
                 else st2);
          st4 = (if r = 12 then
                   (let a = (if c = 2 \<or> c = 3 then pushCoin src BLUE r c st3 else st3)
                    in (if c = 11 \<or> c = 12 then pushCoin src YELLOW r c a else a))
                 else st3)
      in st4)"

definition cellTypeMask :: "nat list list" where
  "cellTypeMask =
    [[0, 0, 0, 0, 0, 0, 1, 1, 1, 0, 0, 0, 0, 0, 0],
     [0, 0, 0, 0, 0, 0, 1, 2, 3, 0, 0, 0, 0, 0, 0],
     [0, 0, 5, 5, 0, 0, 2, 2, 1, 0, 0, 5, 5, 0, 0],
     [0, 0, 5, 5, 0, 0, 1, 2, 1, 0, 0, 5, 5, 0, 0],
     [0, 0, 0, 0, 0, 0, 1, 2, 1, 0, 0, 0, 0, 0, 0],
     [0, 0, 0, 0, 0, 0, 1, 2, 1, 0, 0, 0, 0, 0, 0],
     [1, 3, 1, 1, 1, 1, 0, 4, 0, 1, 1, 1, 2, 1, 1],
     [1, 2, 2, 2, 2, 2, 4, 0, 4, 2, 2, 2, 2, 2, 1],
     [1, 1, 2, 1, 1, 1, 0, 4, 0, 1, 1, 1, 1, 3, 1],
     [0, 0, 0, 0, 0, 0, 1, 2, 1, 0, 0, 0, 0, 0, 0],
     [0, 0, 0, 0, 0, 0, 1, 2, 1, 0, 0, 0, 0, 0, 0],
     [0, 0, 5, 5, 0, 0, 1, 2, 1, 0, 0, 5, 5, 0, 0],
     [0, 0, 5, 5, 0, 0, 1, 2, 3, 0, 0, 5, 5, 0, 0],
     [0, 0, 0, 0, 0, 0, 3, 2, 1, 0, 0, 0, 0, 0, 0],
     [0, 0, 0, 0, 0, 0, 1, 1, 1, 0, 0, 0, 0, 0, 0]]"

definition playerMask :: "nat list list" where
  "playerMask =
    [[0, 0, 0, 0, 0, 0, 0, 0, 0, 0, 0, 0, 0, 0, 0],
     [0, 0, 0, 0, 0, 0, 0, 2, 2, 0, 0, 0, 0, 0, 0],
     [0, 0, 0, 0, 0, 0, 0, 2, 0, 0, 0, 0, 0, 0, 0],
     [0, 0, 0, 0, 0, 0, 0, 2, 0, 0, 0, 0, 0, 0, 0],
     [0, 0, 0, 0, 0, 0, 0, 2, 0, 0, 0, 0, 0, 0, 0],
     [0, 0, 0, 0, 0, 0, 0, 2, 0, 0, 0, 0, 0, 0, 0],
     [0, 1, 0, 0, 0, 0, 0, 2, 0, 0, 0, 0, 0, 0, 0],
     [0, 1, 1, 1, 1, 1, 1, 0, 3, 3, 3, 3, 3, 3, 0],
     [0, 0, 0, 0, 0, 0, 0, 4, 0, 0, 0, 0, 0, 3, 0],
     [0, 0, 0, 0, 0, 0, 0, 4, 0, 0, 0, 0, 0, 0, 0],
     [0, 0, 0, 0, 0, 0, 0, 4, 0, 0, 0, 0, 0, 0, 0],
     [0, 0, 0, 0, 0, 0, 0, 4, 0, 0, 0, 0, 0, 0, 0],
     [0, 0, 0, 0, 0, 0, 0, 4, 0, 0, 0, 0, 0, 0, 0],
     [0, 0, 0, 0, 0, 0, 4, 4, 0, 0, 0, 0, 0, 0, 0],
     [0, 0, 0, 0, 0, 0, 0, 0, 0, 0, 0, 0, 0, 0, 0]]"

definition colorMask :: "nat list list" where
  "colorMask =
    [[1, 1, 1, 1, 1, 1, 0, 0, 0, 2, 2, 2, 2, 2, 2],
     [1, 0, 0, 0, 0, 1, 0, 2, 2, 2, 0, 0, 0, 0, 2],
     [1, 0, 1, 1, 0, 1, 0, 2, 0, 2, 0, 2, 2, 0, 2],
     [1, 0, 1, 1, 0, 1, 0, 2, 0, 2, 0, 2, 2, 0, 2],
     [1, 0, 0, 0, 0, 1, 0, 2, 0, 2, 0, 0, 0, 0, 2],
     [1, 1, 1, 1, 1, 1, 0, 2, 0, 2, 2, 2, 2, 2, 2],
     [0, 1, 0, 0, 0, 0, 0, 2, 0, 0, 0, 0, 0, 0, 0],
     [0, 1, 1, 1, 1, 1, 1, 0, 3, 3, 3, 3, 3, 3, 0],
     [0, 0, 0, 0, 0, 0, 0, 4, 0, 0, 0, 0, 0, 3, 0],
     [4, 4, 4, 4, 4, 4, 0, 4, 0, 3, 3, 3, 3, 3, 3],
     [4, 0, 0, 0, 0, 4, 0, 4, 0, 3, 0, 0, 0, 0, 3],
     [4, 0, 4, 4, 0, 4, 0, 4, 0, 3, 0, 3, 3, 0, 3],
     [4, 0, 4, 4, 0, 4, 0, 4, 0, 3, 0, 3, 3, 0, 3],
     [4, 0, 0, 0, 0, 4, 4, 4, 0, 3, 0, 0, 0, 0, 3],
     [4, 4, 4, 4, 4, 4, 0, 0, 0, 3, 3, 3, 3, 3, 3]]"

text \<open>The body of the inner loop of \<^verbatim>\<open>getBoardMatrix\<close>: the cell at row \<open>i\<close>,
  column \<open>j\<close>. The object is created as a wall with the default colour and the coins
  of \<^verbatim>\<open>createCoinInstance\<close>, then the three \<^verbatim>\<open>switch\<close> statements assign its
  type, its owner (left unset when the player mask holds 0) and its colour.\<close>

definition makeCell :: "uuid_source \<Rightarrow> nat \<Rightarrow> nat \<Rightarrow> nat \<Rightarrow> Cell \<times> nat" where
  "makeCell src i j k =
     (let cellType = cellTypeMask ! i ! j;
          player = playerMask ! i ! j;
          color = colorMask ! i ! j
      in (case createCoinInstance src i j k of (coins, k') \<Rightarrow>
        (let cell0 = \<lparr>cell_id = i * BOARD_SIZE + j,
                      cell_position = \<lparr>row = i, col = j\<rparr>,
                      cell_type = WALL,
                      cell_player = None,
                      cell_color = getPlayerColor None,
                      cell_coins = coins\<rparr>;
             cell1 = cell0\<lparr>cell_type :=
                       (if cellType = 1 then NORMAL
                        else if cellType = 2 then SAFE
                        else if cellType = 3 then START
                        else if cellType = 4 then FINISH
                        else if cellType = 5 then HOME
                        else WALL)\<rparr>;
             cell2 = (if player = 1 then cell1\<lparr>cell_player := Some RED\<rparr>
                      else if player = 2 then cell1\<lparr>cell_player := Some GREEN\<rparr>
                      else if player = 3 then cell1\<lparr>cell_player := Some YELLOW\<rparr>
                      else if player = 4 then cell1\<lparr>cell_player := Some BLUE\<rparr>
                      else cell1);
             cell3 = cell2\<lparr>cell_color :=
                       (if color = 1 then getPlayerColor (Some RED)
                        else if color = 2 then getPlayerColor (Some GREEN)
                        else if color = 3 then getPlayerColor (Some YELLOW)
                        else if color = 4 then getPlayerColor (Some BLUE)
                        else getPlayerColor None)\<rparr>
         in (cell3, k'))))"

text \<open>\<^verbatim>\<open>for (let j = 0; j < BOARD_SIZE; j++) { ...; row.push(cell); }\<close>\<close>

function rowLoop :: "uuid_source \<Rightarrow> nat \<Rightarrow> nat \<Rightarrow> Cell list \<Rightarrow> nat \<Rightarrow> Cell list \<times> nat" where
  "rowLoop src i j cells k =
     (if j < BOARD_SIZE then
        (case makeCell src i j k of (cell, k') \<Rightarrow> rowLoop src i (j + 1) (cells @ [cell]) k')
      else (cells, k))"
  by pat_completeness auto
termination
  by (relation "measure (\<lambda>(src, i, j, cells, k). BOARD_SIZE - j)") auto

text \<open>\<^verbatim>\<open>for (let i = 0; i < BOARD_SIZE; i++) { const row = []; ...; matrix.push(row); }\<close>\<close>

function matrixLoop :: "uuid_source \<Rightarrow> nat \<Rightarrow> BoardMatrix \<Rightarrow> nat \<Rightarrow> BoardMatrix \<times> nat" where
  "matrixLoop src i matrix k =
     (if i < BOARD_SIZE then
        (case rowLoop src i 0 [] k of (cells, k') \<Rightarrow> matrixLoop src (i + 1) (matrix @ [cells]) k')
      else (matrix, k))"
  by pat_completeness auto
termination
  by (relation "measure (\<lambda>(src, i, matrix, k). BOARD_SIZE - i)") auto

definition getBoardMatrix :: "uuid_source \<Rightarrow> nat \<Rightarrow> BoardMatrix \<times> nat" where
  "getBoardMatrix src k = matrixLoop src 0 [] k"

declare rowLoop.simps [simp del]
declare matrixLoop.simps [simp del]

section \<open>Turn state machine (gameState.helpers)\<close>

text \<open>\<^verbatim>\<open>gameState.players.find(player => player.id === gameState.currentPlayer)\<close>:
  the first player with the id, \<^verbatim>\<open>undefined\<close> (here \<open>None\<close>) when there is none.\<close>

definition getCurrentPlayer :: "LudoGameState \<Rightarrow> Player option" where
  "getCurrentPlayer gameState =
     find (\<lambda>player. player_id player = currentPlayer gameState) (players gameState)"

definition getPlayer :: "PlayerId \<Rightarrow> LudoGameState \<Rightarrow> Player option" where
  "getPlayer playerId gameState = find (\<lambda>p. player_id p = playerId) (players gameState)"

definition getPlayerState :: "PlayerId \<Rightarrow> Player list \<Rightarrow> error + PlayerState" where
  "getPlayerState playerId ps =
     (case find (\<lambda>p. player_id p = playerId) ps of
        None \<Rightarrow> Inl TypeError
      | Some player \<Rightarrow> Inr (player_state player))"

text \<open>The optional parameters \<^verbatim>\<open>movesLeft?\<close> and \<^verbatim>\<open>nextPossibleStates?\<close> are
  options; \<^verbatim>\<open>a ?? b\<close> takes \<open>b\<close> when \<open>a\<close> is absent.\<close>

definition reducePlayerState ::
  "PlayerId \<Rightarrow> PlayerState \<Rightarrow> LudoGameState \<Rightarrow> int option \<Rightarrow> PlayerState list option
     \<Rightarrow> Player list" where
  "reducePlayerState playerId nextState gameState ml nps =
     map (\<lambda>player.
            if player_id player = playerId then
              player\<lparr>player_state := nextState,
                     movesLeft := (case ml of Some m \<Rightarrow> m | None \<Rightarrow> movesLeft player - 1),
                     nextPossibleStates :=
                       (case nps of Some n \<Rightarrow> n | None \<Rightarrow> nextPossibleStates player)\<rparr>
            else player)
         (players gameState)"

definition reduceDiceClick :: "int \<Rightarrow> LudoGameState \<Rightarrow> error + LudoGameState" where
  "reduceDiceClick nextDiceValue gameState =
     (case getCurrentPlayer gameState of
        None \<Rightarrow> Inl TypeError
      | Some cur \<Rightarrow>
          (let ml0 = movesLeft cur - 1;
               nps0 = nextPossibleStates cur;
               ml = (if nextDiceValue = 6 then 1 else ml0);
               nps = (if nextDiceValue = 6 then [THINKING] else nps0)
           in Inr (gameState\<lparr>
                diceState := \<lparr>dice_value = nextDiceValue, rolling = True\<rparr>,
                players := reducePlayerState (currentPlayer gameState) ROLLING gameState
                             (Some ml) (Some nps)\<rparr>)))"

definition reduceDiceRollDone :: "LudoGameState \<Rightarrow> error + LudoGameState" where
  "reduceDiceRollDone gameState =
     (case getCurrentPlayer gameState of
        None \<Rightarrow> Inl TypeError
      | Some cur \<Rightarrow>
          (let ml0 = movesLeft cur - 1;
               nps0 = nextPossibleStates cur;
               ml = (if dice_value (diceState gameState) = 6 then 1 else ml0);
               nps = (if dice_value (diceState gameState) = 6 then [MOVING] else nps0)
           in Inr (gameState\<lparr>
                diceState := (diceState gameState)\<lparr>rolling := False\<rparr>,
                players := reducePlayerState (currentPlayer gameState) THINKING gameState
                             (Some ml) (Some nps)\<rparr>)))"

text \<open>\<^verbatim>\<open>cell.coins[0]\<close>: the first coin of a cell, \<^verbatim>\<open>undefined\<close> when the cell
  holds none.\<close>

definition firstCoin :: "Cell \<Rightarrow> Coin option" where
  "firstCoin cell = (case cell_coins cell of [] \<Rightarrow> None | c # _ \<Rightarrow> Some c)"

text \<open>The inner function \<^verbatim>\<open>createPlayer\<close> of \<^verbatim>\<open>initiateGameState\<close>, with the list
  \<^verbatim>\<open>cellsWithCoins\<close> it closes over as a parameter. Every cell of that list has a
  first coin, which \<^verbatim>\<open>cell.coins[0] as Coin\<close> reads.\<close>

definition createPlayer :: "Cell list \<Rightarrow> PlayerId \<Rightarrow> Player" where
  "createPlayer cellsWithCoins playerId =
     (let cells = filter (\<lambda>cell. map_option coin_player (firstCoin cell) = Some playerId)
                    cellsWithCoins
      in \<lparr>player_id = playerId,
          player_state = NOT_STARTED,
          player_coins = map (\<lambda>cell. hd (cell_coins cell)) cells,
          movesLeft = 3,
          nextPossibleStates = [ROLLING]\<rparr>)"

definition initiateGameState :: "uuid_source \<Rightarrow> nat \<Rightarrow> LudoGameState \<times> nat" where
  "initiateGameState src k =
     (case getBoardMatrix src k of (board, k') \<Rightarrow>
        (let cellsWithCoins = filter (\<lambda>cell. firstCoin cell \<noteq> None) (concat board);
             ps = [createPlayer cellsWithCoins RED,
                   createPlayer cellsWithCoins GREEN,
                   createPlayer cellsWithCoins YELLOW,
                   createPlayer cellsWithCoins BLUE]
         in (\<lparr>currentPlayer = RED,
              players = ps,
              boardMatrix = board,
              started = False,
              diceState = \<lparr>dice_value = 3, rolling = False\<rparr>\<rparr>, k')))"

text \<open>The two events of the game component (\<^verbatim>\<open>onUpdateDiceValue\<close> and
  \<^verbatim>\<open>onCompleteRoll\<close> of \<^verbatim>\<open>LudoGame\<close>), each replacing the state by the result of
  its reducer; a run applies a list of events in order and stops at the first
  exception.\<close>

datatype event = DiceClicked int | RollSettled

fun step :: "event \<Rightarrow> LudoGameState \<Rightarrow> error + LudoGameState" where
  "step (DiceClicked v) s = reduceDiceClick v s"
| "step RollSettled s = reduceDiceRollDone s"

fun run :: "event list \<Rightarrow> LudoGameState \<Rightarrow> error + LudoGameState" where
  "run [] s = Inr s"
| "run (e # es) s = (case step e s of Inl err \<Rightarrow> Inl err | Inr s' \<Rightarrow> run es s')"

text \<open>A dice-clicked event carries a face of the dice, 1 to 6.\<close>

fun valid_event :: "event \<Rightarrow> bool" where
  "valid_event (DiceClicked v) = (1 \<le> v \<and> v \<le> 6)"
| "valid_event RollSettled = True"

section \<open>Easing functions (graphics.helpers)\<close>

text \<open>Each function checks \<^verbatim>\<open>time > 1\<close> first, then \<^verbatim>\<open>time < 0\<close>, and throws
  an \<^verbatim>\<open>Error\<close> naming the argument; otherwise it returns the eased value, computed
  in the arithmetic of JavaScript numbers.\<close>

definition easeOut :: "number \<Rightarrow> error + number" where
  "easeOut time =
     (if num_lt (Fin 1) time then Inl (TimeGreaterThanOne time)
      else if num_lt time (Zero False) then Inl (TimeLessThanZero time)
      else Inr (num_sub (Fin 1) (num_sq (num_sub (Fin 1) time))))"

definition easeIn :: "number \<Rightarrow> error + number" where
  "easeIn time =
     (if num_lt (Fin 1) time then Inl (TimeGreaterThanOne time)
      else if num_lt time (Zero False) then Inl (TimeLessThanZero time)
      else Inr (num_sq time))"

definition easeInOut :: "number \<Rightarrow> error + number" where
  "easeInOut time =
     (if num_lt (Fin 1) time then Inl (TimeGreaterThanOne time)
      else if num_lt time (Zero False) then Inl (TimeLessThanZero time)
      else Inr (if num_lt time (Fin (1 / 2)) then num_mul (Fin 2) (num_sq time)
                else num_sub (Fin 1)
                       (num_div (num_sq (num_add (num_mul (Fin (- 2)) time) (Fin 2)))
                          (Fin 2))))"

section \<open>Coin-slide animation (ludoRenderer.tsx)\<close>




section \<open>Dice-roll animation (diceRenderer.tsx)\<close>

text \<open>\<^verbatim>\<open>Math.floor(Math.random() * 6) + 1\<close>, with the result \<open>r\<close> of
  \<^verbatim>\<open>Math.random()\<close> as a parameter.\<close>

definition getRandomDiceValue :: "number \<Rightarrow> number" where
  "getRandomDiceValue r = num_add (num_floor (num_mul r (Fin 6))) (Fin 1)"

text \<open>
  One call of \<^verbatim>\<open>animateDiceFace\<close> is one tick. The two slots
  \<^verbatim>\<open>window.animationStartTime\<close> and \<^verbatim>\<open>window.lastDiceValue\<close>, the clock reading
  and the two random numbers the tick may draw (the ticket compared with the eased
  time, and the one behind the next random face) are parameters; the result holds the
  slots after the call, the face handed to \<^verbatim>\<open>renderDiceFace\<close> and the number of
  calls of \<^verbatim>\<open>onRollDone\<close>. \<^verbatim>\<open>window.lastDiceValue || diceState.value\<close> takes the
  dice state's value when the slot is \<^verbatim>\<open>undefined\<close> or holds a falsy number. The
  dice state's value, a whole number in the model, is read as a number.
\<close>

record DiceTick =
  animationStartTime :: "number option"
  lastDiceValue :: "number option"
  faceDrawn :: number
  rollDoneCalls :: nat

definition animateDiceFace ::
  "number option \<Rightarrow> number option \<Rightarrow> DiceState \<Rightarrow> number \<Rightarrow> number \<Rightarrow> number \<Rightarrow> number
     \<Rightarrow> error + DiceTick" where
  "animateDiceFace startSlot lastSlot ds now ticket r animationDuration =
     (if rolling ds then
        (let lastValue = (case lastSlot of
                            None \<Rightarrow> num_of_int (dice_value ds)
                          | Some v \<Rightarrow> if falsy v then num_of_int (dice_value ds) else v);
             arm = Inr \<lparr>animationStartTime = Some now,
                        lastDiceValue = Some (getRandomDiceValue r),
                        faceDrawn = lastValue, rollDoneCalls = 0\<rparr>
         in (case startSlot of
               None \<Rightarrow> arm
             | Some startTime \<Rightarrow>
                 if falsy startTime then arm
                 else
                   (let timeElapsed = num_sub now startTime
                    in if num_lt animationDuration timeElapsed then
                         Inr \<lparr>animationStartTime = Some (Zero False),
                              lastDiceValue = Some (num_of_int (dice_value ds)),
                              faceDrawn = lastValue, rollDoneCalls = 1\<rparr>
                       else
                         (case easeOut (num_div timeElapsed animationDuration) of
                            Inl e \<Rightarrow> Inl e
                          | Inr p \<Rightarrow>
                              (let skipFrame = num_lt ticket p
                               in Inr \<lparr>animationStartTime = startSlot,
                                       lastDiceValue =
                                         (if \<not> skipFrame then Some (getRandomDiceValue r)
                                          else lastSlot),
                                       faceDrawn = lastValue, rollDoneCalls = 0\<rparr>)))))
      else
        Inr \<lparr>animationStartTime = startSlot, lastDiceValue = lastSlot,
             faceDrawn = num_of_int (dice_value ds), rollDoneCalls = 0\<rparr>)"

section \<open>Auxiliary notions for the statements\<close>

text \<open>A source of pairwise distinct identifiers, for concrete runs.\<close>

definition example_uuids :: uuid_source where
  "example_uuids n = replicate (n + 1) CHR ''u''"

text \<open>A cell with the identifiers of its coins blanked: every field of the cell
  and of its coins but the coin ids.\<close>

definition eraseCoinIds :: "Cell \<Rightarrow> Cell" where
  "eraseCoinIds cell = cell\<lparr>cell_coins := map (\<lambda>c. c\<lparr>coin_id := []\<rparr>) (cell_coins cell)\<rparr>"

text \<open>\<^verbatim>\<open>x <= y\<close> in JavaScript, and with it the interval \<open>[0, 1]\<close>: a number is
  in it when \<^verbatim>\<open>0 <= t && t <= 1\<close>, which \<^verbatim>\<open>NaN\<close> is not.\<close>

definition num_le :: "number \<Rightarrow> number \<Rightarrow> bool" where
  "num_le x y = (x \<noteq> NaN \<and> y \<noteq> NaN \<and> \<not> num_lt y x)"

definition in_unit_interval :: "number \<Rightarrow> bool" where
  "in_unit_interval t = (num_le (Zero False) t \<and> num_le t (Fin 1))"


section \<open>Properties of the turn state machine\<close>

lemma find_update_by_id:
  assumes "\<And>p. player_id (g p) = player_id p"
  shows "find (\<lambda>p. player_id p = c)
           (map (\<lambda>player. if player_id player = c then g player else player) ps)
         = map_option g (find (\<lambda>p. player_id p = c) ps)"
  by (induction ps) (simp_all add: assms)

lemma getCurrentPlayer_reduce:
  "getCurrentPlayer (gameState\<lparr>diceState := d,
       players := reducePlayerState (currentPlayer gameState) st gameState ml nps\<rparr>)
   = map_option (\<lambda>player. player\<lparr>player_state := st,
                     movesLeft := (case ml of Some m \<Rightarrow> m | None \<Rightarrow> movesLeft player - 1),
                     nextPossibleStates :=
                       (case nps of Some n \<Rightarrow> n | None \<Rightarrow> nextPossibleStates player)\<rparr>)
       (getCurrentPlayer gameState)"
  unfolding getCurrentPlayer_def reducePlayerState_def
  by (simp add: find_update_by_id)

lemma initial_state_fields:
  "currentPlayer (fst (initiateGameState src k)) = RED"
  "diceState (fst (initiateGameState src k)) = \<lparr>dice_value = 3, rolling = False\<rparr>"
  "started (fst (initiateGameState src k)) = False"
  "boardMatrix (fst (initiateGameState src k)) = fst (getBoardMatrix src k)"
  "map (\<lambda>p. (player_id p, player_state p, movesLeft p, nextPossibleStates p))
       (players (fst (initiateGameState src k)))
   = [(RED, NOT_STARTED, 3, [ROLLING]), (GREEN, NOT_STARTED, 3, [ROLLING]),
      (YELLOW, NOT_STARTED, 3, [ROLLING]), (BLUE, NOT_STARTED, 3, [ROLLING])]"
  by (simp_all add: initiateGameState_def createPlayer_def split: prod.split)

lemma initial_current_player:
  "\<exists>cur. getCurrentPlayer (fst (initiateGameState src k)) = Some cur
         \<and> player_id cur = RED \<and> player_state cur = NOT_STARTED
         \<and> movesLeft cur = 3 \<and> nextPossibleStates cur = [ROLLING]"
  by (simp add: getCurrentPlayer_def initiateGameState_def createPlayer_def split: prod.split)

lemma reduceDiceClick_result:
  assumes "getCurrentPlayer s = Some cur"
  shows "\<exists>s'. reduceDiceClick v s = Inr s'
           \<and> diceState s' = \<lparr>dice_value = v, rolling = True\<rparr>
           \<and> getCurrentPlayer s' =
               Some (cur\<lparr>player_state := ROLLING,
                          movesLeft := (if v = 6 then 1 else movesLeft cur - 1),
                          nextPossibleStates :=
                            (if v = 6 then [THINKING] else nextPossibleStates cur)\<rparr>)"
  using assms by (simp add: reduceDiceClick_def Let_def getCurrentPlayer_reduce)

lemma reduceDiceRollDone_result:
  assumes "getCurrentPlayer s = Some cur"
  shows "\<exists>s'. reduceDiceRollDone s = Inr s'
           \<and> diceState s' = (diceState s)\<lparr>rolling := False\<rparr>
           \<and> getCurrentPlayer s' =
               Some (cur\<lparr>player_state := THINKING,
                          movesLeft :=
                            (if dice_value (diceState s) = 6 then 1 else movesLeft cur - 1),
                          nextPossibleStates :=
                            (if dice_value (diceState s) = 6 then [MOVING]
                             else nextPossibleStates cur)\<rparr>)"
  using assms by (simp add: reduceDiceRollDone_def Let_def getCurrentPlayer_reduce)

lemma reducers_without_current_player:
  assumes "getCurrentPlayer s = None"
  shows "reduceDiceClick v s = Inl TypeError" and "reduceDiceRollDone s = Inl TypeError"
  using assms by (simp_all add: reduceDiceClick_def reduceDiceRollDone_def)

text \<open>
  Claim C3. The dice-clicked transition returns a state whose dice state is
  \<open>{value: v, rolling: true}\<close> and whose current player is Rolling; for a value
  other than 6 the current player's \<open>movesLeft\<close> is the old one minus 1, for 6 it
  is 1 and \<open>nextPossibleStates\<close> is \<open>[Thinking]\<close>, whatever the old
  \<open>movesLeft\<close> was. A game state has its current player in its roster (the data
  model's invariant; the lookup of \<^verbatim>\<open>getCurrentPlayer\<close> succeeds), which is the
  hypothesis: there is no current player to speak of otherwise, and the reducer throws.
  The statement holds for every number \<open>v\<close>, in particular for the faces 1 to 6.
\<close>

theorem reduceDiceClick_spec:
  assumes "getCurrentPlayer s = Some cur"
  shows "\<exists>s' cur'. reduceDiceClick v s = Inr s'
           \<and> diceState s' = \<lparr>dice_value = v, rolling = True\<rparr>
           \<and> getCurrentPlayer s' = Some cur'
           \<and> player_state cur' = ROLLING
           \<and> (v \<noteq> 6 \<longrightarrow> movesLeft cur' = movesLeft cur - 1)
           \<and> (v = 6 \<longrightarrow> movesLeft cur' = 1 \<and> nextPossibleStates cur' = [THINKING])"
  using assms by (simp add: reduceDiceClick_def Let_def getCurrentPlayer_reduce)

theorem reduceDiceClick_spec_witness:
  "\<exists>cur s4 cur4 s6 cur6.
     getCurrentPlayer (fst (initiateGameState example_uuids 0)) = Some cur
     \<and> movesLeft cur = 3
     \<and> reduceDiceClick 4 (fst (initiateGameState example_uuids 0)) = Inr s4
     \<and> diceState s4 = \<lparr>dice_value = 4, rolling = True\<rparr>
     \<and> getCurrentPlayer s4 = Some cur4
     \<and> player_state cur4 = ROLLING \<and> movesLeft cur4 = 2
     \<and> reduceDiceClick 6 (fst (initiateGameState example_uuids 0)) = Inr s6
     \<and> diceState s6 = \<lparr>dice_value = 6, rolling = True\<rparr>
     \<and> getCurrentPlayer s6 = Some cur6
     \<and> player_state cur6 = ROLLING \<and> movesLeft cur6 = 1
     \<and> nextPossibleStates cur6 = [THINKING]"
proof -
  obtain cur where cur: "getCurrentPlayer (fst (initiateGameState example_uuids 0)) = Some cur"
    and ml: "movesLeft cur = 3"
    using initial_current_player [of example_uuids 0] by blast
  from reduceDiceClick_spec [OF cur, of 4] reduceDiceClick_spec [OF cur, of 6] cur ml
  show ?thesis by fastforce
qed

text \<open>
  Claim C4. The roll-settled transition, on a game state (its roster holds the
  current player), returns a state whose dice is no longer rolling (its value is kept) and
  whose current player is Thinking; when the settled value is 6 the current player's
  \<open>movesLeft\<close> is 1 and \<open>nextPossibleStates\<close> is \<open>[Moving]\<close>, otherwise
  \<open>nextPossibleStates\<close> is carried over unchanged.
\<close>

theorem reduceDiceRollDone_spec:
  assumes "getCurrentPlayer s = Some cur"
  shows "\<exists>s' cur'. reduceDiceRollDone s = Inr s'
           \<and> rolling (diceState s') = False
           \<and> dice_value (diceState s') = dice_value (diceState s)
           \<and> getCurrentPlayer s' = Some cur'
           \<and> player_state cur' = THINKING
           \<and> (dice_value (diceState s) = 6 \<longrightarrow>
                 movesLeft cur' = 1 \<and> nextPossibleStates cur' = [MOVING])
           \<and> (dice_value (diceState s) \<noteq> 6 \<longrightarrow>
                 nextPossibleStates cur' = nextPossibleStates cur)"
  using assms by (simp add: reduceDiceRollDone_def Let_def getCurrentPlayer_reduce)

theorem reduceDiceRollDone_spec_witness:
  "\<exists>cur s3 cur3 s6 cur6 s7 cur7.
     getCurrentPlayer (fst (initiateGameState example_uuids 0)) = Some cur
     \<and> nextPossibleStates cur = [ROLLING]
     \<and> dice_value (diceState (fst (initiateGameState example_uuids 0))) = 3
     \<and> reduceDiceRollDone (fst (initiateGameState example_uuids 0)) = Inr s3
     \<and> rolling (diceState s3) = False
     \<and> getCurrentPlayer s3 = Some cur3
     \<and> player_state cur3 = THINKING \<and> nextPossibleStates cur3 = [ROLLING]
     \<and> reduceDiceClick 6 (fst (initiateGameState example_uuids 0)) = Inr s6
     \<and> getCurrentPlayer s6 = Some cur6
     \<and> dice_value (diceState s6) = 6
     \<and> reduceDiceRollDone s6 = Inr s7
     \<and> rolling (diceState s7) = False
     \<and> getCurrentPlayer s7 = Some cur7
     \<and> player_state cur7 = THINKING \<and> movesLeft cur7 = 1
     \<and> nextPossibleStates cur7 = [MOVING]"
proof -
  let ?s0 = "fst (initiateGameState example_uuids 0)"
  obtain cur where cur: "getCurrentPlayer ?s0 = Some cur"
    and nps: "nextPossibleStates cur = [ROLLING]"
    using initial_current_player [of example_uuids 0] by blast
  have dv: "dice_value (diceState ?s0) = 3"
    by (simp add: initial_state_fields)
  obtain s6 cur6 where s6: "reduceDiceClick 6 ?s0 = Inr s6"
    and ds6: "diceState s6 = \<lparr>dice_value = 6, rolling = True\<rparr>"
    and cur6: "getCurrentPlayer s6 = Some cur6"
    using reduceDiceClick_result [OF cur, of 6] by blast
  have dv6: "dice_value (diceState s6) = 6"
    by (simp add: ds6)
  from reduceDiceRollDone_spec [OF cur] reduceDiceRollDone_spec [OF cur6] cur nps dv s6 cur6 dv6
  show ?thesis by fastforce
qed

lemma found_player_unique:
  assumes "distinct (map player_id ps)"
    and "find (\<lambda>p. player_id p = c) ps = Some cur"
    and "p \<in> set ps" and "player_id p = c"
  shows "p = cur"
proof -
  from assms(2) have "cur \<in> set ps" and "player_id cur = c"
    by (auto simp: find_Some_iff)
  moreover from assms(1) have "inj_on player_id (set ps)"
    by (simp add: distinct_map)
  ultimately show ?thesis
    using assms(3,4) by (auto dest: inj_onD)
qed

lemma reducePlayerState_default_eq:
  assumes "distinct (map player_id (players s))"
    and "getCurrentPlayer s = Some cur"
  shows "reducePlayerState (currentPlayer s) st s
           (Some (movesLeft cur - 1)) (Some (nextPossibleStates cur))
         = reducePlayerState (currentPlayer s) st s None None"
  unfolding reducePlayerState_def
proof (rule map_cong [OF refl])
  fix p assume p: "p \<in> set (players s)"
  show "(if player_id p = currentPlayer s
         then p\<lparr>player_state := st,
                movesLeft := (case Some (movesLeft cur - 1) of Some m \<Rightarrow> m
                              | None \<Rightarrow> movesLeft p - 1),
                nextPossibleStates := (case Some (nextPossibleStates cur) of Some n \<Rightarrow> n
                              | None \<Rightarrow> nextPossibleStates p)\<rparr>
         else p)
      = (if player_id p = currentPlayer s
         then p\<lparr>player_state := st,
                movesLeft := (case None of Some m \<Rightarrow> m | None \<Rightarrow> movesLeft p - 1),
                nextPossibleStates := (case None of Some n \<Rightarrow> n
                              | None \<Rightarrow> nextPossibleStates p)\<rparr>
         else p)"
  proof (cases "player_id p = currentPlayer s")
    case True
    with assms p have "p = cur"
      unfolding getCurrentPlayer_def by (rule_tac found_player_unique)
    then show ?thesis by simp
  next
    case False
    then show ?thesis by simp
  qed
qed

text \<open>
  Claim C5. On a state whose settled dice value is not 6 (and whose roster holds
  the current player), the roll-settled transition decreases the current player's
  \<open>movesLeft\<close> by 1; so a dice click with a value other than 6 followed by the
  settling of that roll decreases it by 2 in total. The reducer computes
  \<open>movesLeft - 1\<close> itself and hands it to \<^verbatim>\<open>reducePlayerState\<close>; where the player
  ids of the roster are distinct this is the roster that \<^verbatim>\<open>reducePlayerState\<close>
  builds from its defaults.
\<close>

theorem rollDone_decrements_movesLeft:
  assumes "getCurrentPlayer s = Some cur"
  shows "(dice_value (diceState s) \<noteq> 6 \<longrightarrow>
           (\<exists>s' cur'. reduceDiceRollDone s = Inr s'
              \<and> getCurrentPlayer s' = Some cur'
              \<and> movesLeft cur' = movesLeft cur - 1
              \<and> (distinct (map player_id (players s)) \<longrightarrow>
                   players s' = reducePlayerState (currentPlayer s) THINKING s None None)))
       \<and> (v \<noteq> 6 \<longrightarrow>
           (\<exists>s1 s2 cur2. reduceDiceClick v s = Inr s1
              \<and> reduceDiceRollDone s1 = Inr s2
              \<and> getCurrentPlayer s2 = Some cur2
              \<and> movesLeft cur2 = movesLeft cur - 2))"
proof (intro conjI impI)
  assume nsix: "dice_value (diceState s) \<noteq> 6"
  have "distinct (map player_id (players s)) \<Longrightarrow>
        reducePlayerState (currentPlayer s) THINKING s
          (Some (movesLeft cur - 1)) (Some (nextPossibleStates cur))
        = reducePlayerState (currentPlayer s) THINKING s None None"
    using assms by (simp add: reducePlayerState_default_eq)
  with assms nsix
  show "\<exists>s' cur'. reduceDiceRollDone s = Inr s'
              \<and> getCurrentPlayer s' = Some cur'
              \<and> movesLeft cur' = movesLeft cur - 1
              \<and> (distinct (map player_id (players s)) \<longrightarrow>
                   players s' = reducePlayerState (currentPlayer s) THINKING s None None)"
    by (simp add: reduceDiceRollDone_def Let_def getCurrentPlayer_reduce)
next
  assume nsix: "v \<noteq> 6"
  obtain s1 where s1: "reduceDiceClick v s = Inr s1"
    and d1: "diceState s1 = \<lparr>dice_value = v, rolling = True\<rparr>"
    and c1: "getCurrentPlayer s1 =
               Some (cur\<lparr>player_state := ROLLING,
                          movesLeft := (if v = 6 then 1 else movesLeft cur - 1),
                          nextPossibleStates :=
                            (if v = 6 then [THINKING] else nextPossibleStates cur)\<rparr>)"
    using reduceDiceClick_result [OF assms, of v] by blast
  from d1 nsix have v1: "dice_value (diceState s1) \<noteq> 6"
    by simp
  obtain s2 cur2 where s2: "reduceDiceRollDone s1 = Inr s2"
    and c2: "getCurrentPlayer s2 = Some cur2"
    and m2: "movesLeft cur2 = movesLeft cur - 2"
    using reduceDiceRollDone_result [OF c1] v1 nsix by auto
  with s1 show "\<exists>s1 s2 cur2. reduceDiceClick v s = Inr s1
              \<and> reduceDiceRollDone s1 = Inr s2
              \<and> getCurrentPlayer s2 = Some cur2
              \<and> movesLeft cur2 = movesLeft cur - 2"
    by blast
qed

theorem rollDone_decrements_movesLeft_witness:
  "\<exists>cur s' cur' s1 s2 cur2.
     getCurrentPlayer (fst (initiateGameState example_uuids 0)) = Some cur
     \<and> movesLeft cur = 3
     \<and> dice_value (diceState (fst (initiateGameState example_uuids 0))) = 3
     \<and> reduceDiceRollDone (fst (initiateGameState example_uuids 0)) = Inr s'
     \<and> getCurrentPlayer s' = Some cur' \<and> movesLeft cur' = 2
     \<and> distinct (map player_id (players (fst (initiateGameState example_uuids 0))))
     \<and> players s' = reducePlayerState RED THINKING
                        (fst (initiateGameState example_uuids 0)) None None
     \<and> reduceDiceClick 4 (fst (initiateGameState example_uuids 0)) = Inr s1
     \<and> reduceDiceRollDone s1 = Inr s2
     \<and> getCurrentPlayer s2 = Some cur2 \<and> movesLeft cur2 = 1"
proof -
  let ?s0 = "fst (initiateGameState example_uuids 0)"
  obtain cur where cur: "getCurrentPlayer ?s0 = Some cur" and ml: "movesLeft cur = 3"
    using initial_current_player [of example_uuids 0] by blast
  have dv: "dice_value (diceState ?s0) = 3" and cp: "currentPlayer ?s0 = RED"
    by (simp_all add: initial_state_fields)
  have "map player_id (players ?s0) = [RED, GREEN, YELLOW, BLUE]"
    by (simp add: initiateGameState_def createPlayer_def split: prod.split)
  then have di: "distinct (map player_id (players ?s0))"
    by simp
  from rollDone_decrements_movesLeft [OF cur, of 4] cur ml dv cp di
  show ?thesis by fastforce
qed

subsection \<open>The move budget along a run\<close>

lemma current_player_in_roster:
  assumes "getCurrentPlayer s = Some cur"
  shows "cur \<in> set (players s)"
  using assms by (auto simp: getCurrentPlayer_def find_Some_iff)

lemma reducePlayerState_bounds:
  assumes "\<forall>p \<in> set (players s). b \<le> movesLeft p \<and> movesLeft p \<le> 3"
    and "b \<le> m" and "m \<le> 3"
  shows "\<forall>p \<in> set (reducePlayerState c st s (Some m) nps). b \<le> movesLeft p \<and> movesLeft p \<le> 3"
  using assms by (auto simp: reducePlayerState_def)

lemma step_movesLeft_bounds:
  assumes cur: "getCurrentPlayer s = Some cur"
    and bnd: "\<forall>p \<in> set (players s). b \<le> movesLeft p \<and> movesLeft p \<le> 3"
    and b: "b \<le> 2"
  shows "\<exists>s' cur'. step e s = Inr s' \<and> getCurrentPlayer s' = Some cur'
           \<and> (\<forall>p \<in> set (players s'). b - 1 \<le> movesLeft p \<and> movesLeft p \<le> 3)"
proof -
  from cur bnd have mc: "b \<le> movesLeft cur" "movesLeft cur \<le> 3"
    using current_player_in_roster by blast+
  from bnd have bnd': "\<forall>p \<in> set (players s). b - 1 \<le> movesLeft p \<and> movesLeft p \<le> 3"
    by auto
  show ?thesis
  proof (cases e)
    case (DiceClicked v)
    obtain s' where s': "reduceDiceClick v s = Inr s'"
      and c': "\<exists>cur'. getCurrentPlayer s' = Some cur'"
      using reduceDiceClick_result [OF cur, of v] by blast
    let ?m = "if v = 6 then 1 else movesLeft cur - 1"
    from s' cur have "\<exists>nps. players s' =
        reducePlayerState (currentPlayer s) ROLLING s (Some ?m) nps"
      by (auto simp: reduceDiceClick_def Let_def)
    moreover have "b - 1 \<le> ?m" "?m \<le> 3"
      using mc b by auto
    ultimately have "\<forall>p \<in> set (players s'). b - 1 \<le> movesLeft p \<and> movesLeft p \<le> 3"
      using reducePlayerState_bounds [OF bnd'] by metis
    with s' c' DiceClicked show ?thesis by auto
  next
    case RollSettled
    obtain s' where s': "reduceDiceRollDone s = Inr s'"
      and c': "\<exists>cur'. getCurrentPlayer s' = Some cur'"
      using reduceDiceRollDone_result [OF cur] by blast
    let ?m = "if dice_value (diceState s) = 6 then 1 else movesLeft cur - 1"
    from s' cur have "\<exists>nps. players s' =
        reducePlayerState (currentPlayer s) THINKING s (Some ?m) nps"
      by (auto simp: reduceDiceRollDone_def Let_def)
    moreover have "b - 1 \<le> ?m" "?m \<le> 3"
      using mc b by auto
    ultimately have "\<forall>p \<in> set (players s'). b - 1 \<le> movesLeft p \<and> movesLeft p \<le> 3"
      using reducePlayerState_bounds [OF bnd'] by metis
    with s' c' RollSettled show ?thesis by auto
  qed
qed

lemma run_movesLeft_bounds:
  assumes "getCurrentPlayer s = Some cur"
    and "\<forall>p \<in> set (players s). b \<le> movesLeft p \<and> movesLeft p \<le> 3"
    and "b \<le> 2"
  shows "\<exists>s'. run es s = Inr s'
           \<and> (\<forall>p \<in> set (players s'). b - int (length es) \<le> movesLeft p \<and> movesLeft p \<le> 3)"
  using assms
proof (induction es arbitrary: s cur b)
  case Nil
  then show ?case by simp
next
  case (Cons e es)
  obtain s1 cur1 where s1: "step e s = Inr s1" and c1: "getCurrentPlayer s1 = Some cur1"
    and b1: "\<forall>p \<in> set (players s1). b - 1 \<le> movesLeft p \<and> movesLeft p \<le> 3"
    using step_movesLeft_bounds [OF Cons.prems] by blast
  from Cons.prems(3) have "b - 1 \<le> 2" by simp
  from Cons.IH [OF c1 b1 this]
  obtain s' where "run es s1 = Inr s'"
    and "\<forall>p \<in> set (players s'). b - 1 - int (length es) \<le> movesLeft p \<and> movesLeft p \<le> 3"
    by blast
  with s1 show ?case by auto
qed

lemma initial_movesLeft:
  "\<forall>p \<in> set (players (fst (initiateGameState src k))). 2 \<le> movesLeft p \<and> movesLeft p \<le> 3"
  by (simp add: initiateGameState_def createPlayer_def split: prod.split)

text \<open>
  Claim C2, as stated, fails: nothing in the two reducers stops the budget at zero.
  From the initial state, two rolls of 4, each clicked and settled, leave Red with
  \<open>movesLeft = -1\<close>.
\<close>

theorem movesLeft_negative_counterexample:
  "list_all valid_event [DiceClicked 4, RollSettled, DiceClicked 4, RollSettled]
   \<and> \<not> isl (run [DiceClicked 4, RollSettled, DiceClicked 4, RollSettled]
              (fst (initiateGameState example_uuids 0)))
   \<and> map player_id (players (projr
         (run [DiceClicked 4, RollSettled, DiceClicked 4, RollSettled]
            (fst (initiateGameState example_uuids 0)))))
     = [RED, GREEN, YELLOW, BLUE]
   \<and> map movesLeft (players (projr
         (run [DiceClicked 4, RollSettled, DiceClicked 4, RollSettled]
            (fst (initiateGameState example_uuids 0)))))
     = [- 1, 3, 3, 3]"
  by (simp add: initiateGameState_def createPlayer_def reduceDiceClick_def
      reduceDiceRollDone_def getCurrentPlayer_def reducePlayerState_def Let_def
      split: prod.split)

text \<open>
  Claim C2, amended. A run of \<open>n\<close> dice-clicked (value 1 to 6) and roll-settled
  transitions from the initial state never fails, and in the state it reaches every
  player's \<open>movesLeft\<close> is at least \<open>2 - n\<close> and at most 3; so it is not negative
  as long as the run has at most two transitions.
\<close>

theorem movesLeft_lower_bound:
  assumes "list_all valid_event es"
  shows "\<exists>s. run es (fst (initiateGameState src k)) = Inr s
           \<and> (\<forall>p \<in> set (players s). 2 - int (length es) \<le> movesLeft p \<and> movesLeft p \<le> 3)
           \<and> (length es \<le> 2 \<longrightarrow> (\<forall>p \<in> set (players s). 0 \<le> movesLeft p))"
proof -
  obtain cur where cur: "getCurrentPlayer (fst (initiateGameState src k)) = Some cur"
    using initial_current_player by blast
  from run_movesLeft_bounds [OF cur initial_movesLeft, of es]
  obtain s where s: "run es (fst (initiateGameState src k)) = Inr s"
    and bnd: "\<forall>p \<in> set (players s). 2 - int (length es) \<le> movesLeft p \<and> movesLeft p \<le> 3"
    by auto
  from bnd have "length es \<le> 2 \<longrightarrow> (\<forall>p \<in> set (players s). 0 \<le> movesLeft p)"
    by fastforce
  with s bnd show ?thesis by blast
qed

theorem movesLeft_lower_bound_witness:
  "list_all valid_event [DiceClicked 4, RollSettled]
   \<and> (\<exists>s. run [DiceClicked 4, RollSettled] (fst (initiateGameState example_uuids 0)) = Inr s
          \<and> list_all (\<lambda>p. 0 \<le> movesLeft p \<and> movesLeft p \<le> 3) (players s))"
proof -
  have v: "list_all valid_event [DiceClicked 4, RollSettled]"
    by simp
  from movesLeft_lower_bound [OF v, of example_uuids 0]
  show ?thesis using v by (auto simp: list_all_iff)
qed

section \<open>Properties of the number model\<close>

lemma round_half_even_of_int [simp]: "round_half_even (of_int n) = n"
  by (simp add: round_half_even_def)



lemma expo_le:
  assumes "\<bar>x\<bar> < 2 powi (k + 1)" and "- 1022 \<le> k" and "k \<le> 1023"
  shows "expo x \<le> k"
proof -
  define xs :: "int list" where "xs = [- 1022..1023]"
  have set_xs: "set xs = {- 1022..1023}" and sorted_xs: "sorted xs"
    by (simp_all only: xs_def set_upto sorted_upto)
  let ?P = "\<lambda>j. \<bar>x\<bar> < 2 powi (j + 1)"
  from assms have kin: "k \<in> set xs"
    by (simp add: set_xs)
  with assms(1) have "find ?P xs \<noteq> None"
    by (auto simp: find_None_iff)
  then obtain j where j: "find ?P xs = Some j"
    by blast
  then obtain i where i: "i < length xs" "xs ! i = j" "\<forall>i' < i. \<not> ?P (xs ! i')"
    by (auto simp: find_Some_iff)
  from kin obtain ik where ik: "ik < length xs" "xs ! ik = k"
    by (auto simp: in_set_conv_nth)
  have iik: "i \<le> ik"
  proof (rule ccontr)
    assume "\<not> i \<le> ik"
    then have "\<not> ?P (xs ! ik)" using i(3) by simp
    with ik(2) assms(1) show False by simp
  qed
  have "xs ! i \<le> xs ! ik"
    using sorted_xs iik ik(1) by (rule sorted_nth_mono)
  with i(2) ik(2) have "j \<le> k" by simp
  moreover have "expo x = j"
    using j by (simp only: expo_def xs_def [symmetric] option.case)
  ultimately show ?thesis by simp
qed

lemma expo_bounds:
  assumes "expo x \<le> 1023"
  shows "- 1022 \<le> expo x" and "\<bar>x\<bar> < 2 powi (expo x + 1)"
proof -
  define xs :: "int list" where "xs = [- 1022..1023]"
  have set_xs: "set xs = {- 1022..1023}"
    by (simp only: xs_def set_upto)
  let ?P = "\<lambda>j. \<bar>x\<bar> < 2 powi (j + 1)"
  have e: "expo x = (case find ?P xs of Some k \<Rightarrow> k | None \<Rightarrow> 1024)"
    by (simp only: expo_def xs_def [symmetric])
  with assms obtain j where j: "find ?P xs = Some j" and ej: "expo x = j"
    by (cases "find ?P xs") simp_all
  from j have "j \<in> set xs" and "?P j"
    by (auto simp: find_Some_iff)
  with ej show "- 1022 \<le> expo x" and "\<bar>x\<bar> < 2 powi (expo x + 1)"
    by (simp_all add: set_xs)
qed

lemma expo_eq:
  assumes "2 powi k \<le> \<bar>x\<bar>" and "\<bar>x\<bar> < 2 powi (k + 1)"
    and "- 1022 \<le> k" and "k \<le> 1023"
  shows "expo x = k"
proof -
  have le: "expo x \<le> k"
    using assms(2,3,4) by (rule expo_le)
  with assms(4) have "\<bar>x\<bar> < 2 powi (expo x + 1)"
    by (intro expo_bounds(2)) simp
  with assms(1) have "(2::real) powi k < 2 powi (expo x + 1)"
    by simp
  have "k < expo x + 1"
  proof (rule ccontr)
    assume "\<not> k < expo x + 1"
    then have "(2::real) powi (expo x + 1) \<le> 2 powi k"
      by (intro power_int_increasing) simp_all
    with \<open>(2::real) powi k < 2 powi (expo x + 1)\<close> show False by simp
  qed
  with le show ?thesis by simp
qed

text \<open>A value with a significand below \<open>2 ^ 53\<close> and an exponent in range is a
  binary64 value: rounding leaves it as it is.\<close>

lemma round64_exact:
  assumes x: "x = of_int m * 2 powi e" and m: "m \<noteq> 0" "\<bar>m\<bar> < 2 ^ 53"
    and e: "- 1074 \<le> e" "e \<le> 971"
  shows "round64 x = Fin x"
proof -
  have xn: "x \<noteq> 0"
    using x m by simp
  have absx: "\<bar>x\<bar> = of_int \<bar>m\<bar> * 2 powi e"
    using x by (simp add: abs_mult)
  have "of_int \<bar>m\<bar> < (2::real) ^ 53"
    using m(2) by (metis of_int_less_numeral_power_cancel_iff)
  then have "\<bar>x\<bar> < 2 ^ 53 * 2 powi e"
    unfolding absx by (simp add: mult_strict_right_mono)
  also have "\<dots> = 2 powi (e + 52 + 1)"
    by (simp add: power_int_add)
  finally have "expo x \<le> e + 52"
    using e by (intro expo_le) simp_all
  then have k: "expo x - 52 \<le> e"
    by simp
  define d where "d = nat (e - (expo x - 52))"
  have de: "e = (expo x - 52) + int d"
    using k by (simp add: d_def)
  define u :: real where "u = 2 powi (expo x - 52)"
  have u: "u \<noteq> 0"
    by (simp add: u_def)
  have "(2::real) powi e = 2 powi ((expo x - 52) + int d)"
    using de by simp
  then have pe: "(2::real) powi e = u * 2 ^ d"
    by (simp add: power_int_add u_def)
  have q: "x / u = of_int (m * 2 ^ d)"
    using u by (simp add: x pe)
  have r: "of_int (m * 2 ^ d) * u = x"
    by (simp add: x pe)
  have "\<bar>x\<bar> < 2 ^ 53 * 2 powi e" by fact
  also have "\<dots> \<le> 2 ^ 53 * 2 powi 971"
  proof -
    have "(2::real) powi e \<le> 2 powi 971"
      using e(2) by (intro power_int_increasing) simp_all
    then show ?thesis
      by (intro mult_left_mono) simp_all
  qed
  also have "\<dots> = 2 ^ 1024"
    by (simp add: power_int_def flip: power_add)
  finally have big: "\<not> 2 ^ 1024 \<le> \<bar>x\<bar>" by simp
  have nz: "m * 2 ^ d \<noteq> 0"
    using m(1) by simp
  show ?thesis
    unfolding round64_def Let_def u_def [symmetric] q round_half_even_of_int r
    using big nz by simp
qed

lemma round64_of_int:
  assumes "n \<noteq> 0" and "\<bar>n\<bar> < 2 ^ 53"
  shows "round64 (of_int n) = Fin (of_int n)"
  using round64_exact [of "of_int n" n 0] assms by simp

lemma round64_numeral [simp]:
  assumes "(numeral k :: int) < 2 ^ 53"
  shows "round64 (numeral k) = Fin (numeral k)"
  using round64_of_int [of "numeral k"] assms by simp

lemma round64_neg_numeral [simp]:
  assumes "(numeral k :: int) < 2 ^ 53"
  shows "round64 (- numeral k) = Fin (- numeral k)"
  using round64_of_int [of "- numeral k"] assms by simp

lemma round64_one [simp]: "round64 1 = Fin 1"
  using round64_of_int [of 1] by simp

lemma round64_minus_one [simp]: "round64 (- 1) = Fin (- 1)"
  using round64_of_int [of "- 1"] by simp

lemma round64_half [simp]: "round64 (1 / 2) = Fin (1 / 2)"
  using round64_exact [of "1 / 2" 1 "- 1"] by simp

lemma round64_zero [simp]: "round64 0 = Zero False"
  by (simp add: round64_def Let_def round_half_even_def)

text \<open>Rounding a value whose binade is known: the definition with the exponent
  filled in, which evaluates on a numeral.\<close>

lemma round64_in_binade:
  assumes "2 powi k \<le> \<bar>x\<bar>" and "\<bar>x\<bar> < 2 powi (k + 1)"
    and "- 1022 \<le> k" and "k \<le> 1023"
  shows "round64 x =
     (let u = 2 powi (k - 52);
          m = round_half_even (x / u)
      in if 2 ^ 1024 \<le> \<bar>of_int m * u\<bar> then Infinity (x < 0)
         else if m = 0 then Zero (x < 0)
         else Fin (of_int m * u))"
proof -
  have "expo x = k"
    using assms by (rule expo_eq)
  then show ?thesis
    by (simp add: round64_def)
qed












section \<open>Properties of the easing functions\<close>

lemma round64_minus_hundredth:
  "num_lt (round64 (- (1 / 100))) (Zero False)"
proof -
  have "round64 (- (1 / 100)) =
     (let u = 2 powi (- 7 - 52);
          m = round_half_even (- (1 / 100) / u)
      in if 2 ^ 1024 \<le> \<bar>of_int m * u\<bar> then Infinity (- (1 / 100) < (0::real))
         else if m = 0 then Zero (- (1 / 100) < (0::real))
         else Fin (of_int m * u))"
    by (rule round64_in_binade) (simp_all add: power_int_minus)
  then show ?thesis
    by (simp add: round_half_even_def Let_def power_int_minus)
qed

lemma round64_one_and_hundredth:
  "num_lt (Fin 1) (round64 (101 / 100))"
proof -
  have "round64 (101 / 100) =
     (let u = 2 powi (0 - 52);
          m = round_half_even (101 / 100 / u)
      in if 2 ^ 1024 \<le> \<bar>of_int m * u\<bar> then Infinity (101 / 100 < (0::real))
         else if m = 0 then Zero (101 / 100 < (0::real))
         else Fin (of_int m * u))"
    by (rule round64_in_binade) simp_all
  then show ?thesis
    by (simp add: round_half_even_def Let_def power_int_minus)
qed

lemma easing_raises:
  "isl (easeIn t) = (num_lt t (Zero False) \<or> num_lt (Fin 1) t)"
  "isl (easeOut t) = (num_lt t (Zero False) \<or> num_lt (Fin 1) t)"
  "isl (easeInOut t) = (num_lt t (Zero False) \<or> num_lt (Fin 1) t)"
  by (auto simp: easeIn_def easeOut_def easeInOut_def)

lemma outside_unit_interval:
  "(num_lt t (Zero False) \<or> num_lt (Fin 1) t) = (t \<noteq> NaN \<and> \<not> in_unit_interval t)"
  by (cases t) (auto simp: in_unit_interval_def num_le_def)

text \<open>
  Claim C10, as stated, fails: \<^verbatim>\<open>NaN\<close> is outside \<open>[0, 1]\<close>, but it is neither
  greater than 1 nor less than 0, so it passes both guards: none of the three functions
  throws, and each returns \<^verbatim>\<open>NaN\<close>.
\<close>

theorem easing_nan_counterexample:
  "\<not> in_unit_interval NaN
   \<and> easeIn NaN = Inr NaN \<and> easeOut NaN = Inr NaN \<and> easeInOut NaN = Inr NaN"
  by (simp add: in_unit_interval_def num_le_def easeIn_def easeOut_def easeInOut_def
      num_sub_def)

text \<open>
  Claim C10, amended. Each of the three easing functions throws exactly when its
  argument is less than 0 or greater than 1, that is for every number outside
  \<open>[0, 1]\<close> other than \<^verbatim>\<open>NaN\<close> (so for \<open>-0.01\<close> and \<open>1.01\<close>), and nothing is
  clamped; for \<^verbatim>\<open>NaN\<close> none throws and each returns \<^verbatim>\<open>NaN\<close>. Inside the interval
  \<open>easeIn t\<close> is \<open>t ** 2\<close> and \<open>easeOut t\<close> is \<open>1 - (1 - t) ** 2\<close>, in the
  arithmetic of JavaScript numbers (the square of a finite \<open>t\<close> is the exact square
  rounded to the nearest number), and \<open>easeInOut\<close> maps 0, 0.5 and 1 to
  themselves.
\<close>

theorem easing_contract:
  "isl (easeIn t) = (num_lt t (Zero False) \<or> num_lt (Fin 1) t)
   \<and> isl (easeOut t) = (num_lt t (Zero False) \<or> num_lt (Fin 1) t)
   \<and> isl (easeInOut t) = (num_lt t (Zero False) \<or> num_lt (Fin 1) t)
   \<and> (num_lt t (Zero False) \<or> num_lt (Fin 1) t) = (t \<noteq> NaN \<and> \<not> in_unit_interval t)
   \<and> easeIn NaN = Inr NaN \<and> easeOut NaN = Inr NaN \<and> easeInOut NaN = Inr NaN
   \<and> (in_unit_interval t \<longrightarrow>
        easeIn t = Inr (num_sq t)
        \<and> easeOut t = Inr (num_sub (Fin 1) (num_sq (num_sub (Fin 1) t))))
   \<and> (in_unit_interval (Fin r) \<longrightarrow> easeIn (Fin r) = Inr (round64 (r * r)))
   \<and> easeInOut (Zero False) = Inr (Zero False)
   \<and> easeInOut (Fin (1 / 2)) = Inr (Fin (1 / 2))
   \<and> easeInOut (Fin 1) = Inr (Fin 1)
   \<and> isl (easeIn (round64 (- (1 / 100)))) \<and> isl (easeOut (round64 (- (1 / 100))))
   \<and> isl (easeInOut (round64 (- (1 / 100))))
   \<and> isl (easeIn (round64 (101 / 100))) \<and> isl (easeOut (round64 (101 / 100)))
   \<and> isl (easeInOut (round64 (101 / 100)))"
proof (intro conjI impI)
  show "easeIn NaN = Inr NaN" "easeOut NaN = Inr NaN" "easeInOut NaN = Inr NaN"
    by (simp_all add: easeIn_def easeOut_def easeInOut_def num_sub_def)
  show "easeInOut (Zero False) = Inr (Zero False)"
    by (simp add: easeInOut_def)
  show "easeInOut (Fin (1 / 2)) = Inr (Fin (1 / 2))"
    by (simp add: easeInOut_def num_sub_def)
  show "easeInOut (Fin 1) = Inr (Fin 1)"
    by (simp add: easeInOut_def num_sub_def)
next
  assume "in_unit_interval t"
  then have "\<not> num_lt (Fin 1) t" "\<not> num_lt t (Zero False)"
    by (simp_all add: in_unit_interval_def num_le_def)
  then show "easeIn t = Inr (num_sq t)"
    and "easeOut t = Inr (num_sub (Fin 1) (num_sq (num_sub (Fin 1) t)))"
    by (simp_all add: easeIn_def easeOut_def)
next
  assume "in_unit_interval (Fin r)"
  then have "\<not> num_lt (Fin 1) (Fin r)" "\<not> num_lt (Fin r) (Zero False)"
    by (simp_all add: in_unit_interval_def num_le_def)
  then show "easeIn (Fin r) = Inr (round64 (r * r))"
    by (simp add: easeIn_def)
qed (simp_all only: easing_raises outside_unit_interval
       round64_minus_hundredth round64_one_and_hundredth simp_thms)

theorem easing_contract_witness:
  "in_unit_interval (Fin (1 / 2))
   \<and> \<not> isl (easeIn (Fin (1 / 2))) \<and> \<not> isl (easeOut (Fin (1 / 2)))
   \<and> easeIn (Fin (1 / 2)) = Inr (Fin (1 / 4))
   \<and> easeOut (Fin (1 / 2)) = Inr (Fin (3 / 4))
   \<and> easeIn (Fin 2) = Inl (TimeGreaterThanOne (Fin 2))
   \<and> easeOut (Fin (- 1)) = Inl (TimeLessThanZero (Fin (- 1)))
   \<and> easeInOut (Infinity False) = Inl (TimeGreaterThanOne (Infinity False))"
proof -
  have u: "in_unit_interval (Fin (1 / 2))"
    by (simp add: in_unit_interval_def num_le_def)
  have q: "round64 (1 / 4) = Fin (1 / 4)" "round64 (3 / 4) = Fin (3 / 4)"
    using round64_exact [of "1 / 4" 1 "- 2"] round64_exact [of "3 / 4" 3 "- 2"]
    by simp_all
  have "num_sq (Fin (1 / 2)) = Fin (1 / 4)"
    by (simp add: q)
  moreover have "num_sub (Fin 1) (num_sq (num_sub (Fin 1) (Fin (1 / 2)))) = Fin (3 / 4)"
    by (simp add: num_sub_def q)
  moreover have "easeIn (Fin 2) = Inl (TimeGreaterThanOne (Fin 2))"
    "easeOut (Fin (- 1)) = Inl (TimeLessThanZero (Fin (- 1)))"
    "easeInOut (Infinity False) = Inl (TimeGreaterThanOne (Infinity False))"
    by (simp_all add: easeIn_def easeOut_def easeInOut_def)
  ultimately show ?thesis
    using easing_contract [of "Fin (1 / 2)" "1 / 2"] u by simp
qed

section \<open>Properties of the animation ticks\<close>













text \<open>
  Claim C9, as stated, fails: on the completion frame the face handed to
  \<^verbatim>\<open>renderDiceFace\<close> is the one retained from the previous tick, not the rolled
  value. With the face 2 retained and the rolled value 5, the completion frame draws 2;
  it retains 5 and calls \<^verbatim>\<open>onRollDone\<close>.
\<close>

theorem animateDiceFace_completion_counterexample:
  "animateDiceFace (Some (Fin 1000)) (Some (Fin 2)) \<lparr>dice_value = 5, rolling = True\<rparr>
       (Fin 3001) (Fin (1 / 2)) (Fin (1 / 2)) (Fin 2000)
     = Inr \<lparr>animationStartTime = Some (Zero False), lastDiceValue = Some (Fin 5),
            faceDrawn = Fin 2, rollDoneCalls = 1\<rparr>"
  by (simp add: animateDiceFace_def num_sub_def num_of_int_def)

text \<open>
  Claim C9, amended. On the tick of a rolling dice where the start-time slot is armed
  and the elapsed time exceeds the duration, the retained face
  (\<^verbatim>\<open>window.lastDiceValue\<close>) is set to the rolled value \<open>diceState.value\<close>, the
  start-time slot is reset to 0 and \<^verbatim>\<open>onRollDone\<close> is called once on that same
  tick; the face drawn on that tick is still the face retained before it (the rolled
  value itself when none, or a falsy one, was retained).
\<close>

theorem animateDiceFace_completion:
  assumes "rolling ds" and "\<not> falsy t0" and "num_lt d (num_sub now t0)"
  shows "animateDiceFace (Some t0) lastSlot ds now ticket r d
           = Inr \<lparr>animationStartTime = Some (Zero False),
                  lastDiceValue = Some (num_of_int (dice_value ds)),
                  faceDrawn = (case lastSlot of
                                 None \<Rightarrow> num_of_int (dice_value ds)
                               | Some v \<Rightarrow>
                                   if falsy v then num_of_int (dice_value ds) else v),
                  rollDoneCalls = 1\<rparr>"
  using assms by (simp add: animateDiceFace_def)

theorem animateDiceFace_completion_witness:
  "rolling \<lparr>dice_value = 5, rolling = True\<rparr> \<and> \<not> falsy (Fin 1000)
   \<and> num_lt (Fin 2000) (num_sub (Fin 3001) (Fin 1000))
   \<and> animateDiceFace (Some (Fin 1000)) None \<lparr>dice_value = 5, rolling = True\<rparr>
         (Fin 3001) (Fin (1 / 2)) (Fin (1 / 2)) (Fin 2000)
       = Inr \<lparr>animationStartTime = Some (Zero False), lastDiceValue = Some (Fin 5),
              faceDrawn = Fin 5, rollDoneCalls = 1\<rparr>
   \<and> animateDiceFace (Some (Fin 1000)) (Some (Fin 2)) \<lparr>dice_value = 5, rolling = True\<rparr>
         (Fin 3001) (Fin (1 / 2)) (Fin (1 / 2)) (Fin 2000)
       = Inr \<lparr>animationStartTime = Some (Zero False), lastDiceValue = Some (Fin 5),
              faceDrawn = Fin 2, rollDoneCalls = 1\<rparr>"
proof -
  have h1: "rolling \<lparr>dice_value = 5, rolling = True\<rparr>"
    by simp
  have h2: "\<not> falsy (Fin 1000)"
    and h3: "num_lt (Fin 2000) (num_sub (Fin 3001) (Fin 1000))"
    by (simp_all add: num_sub_def)
  have "animateDiceFace (Some (Fin 1000)) None \<lparr>dice_value = 5, rolling = True\<rparr>
         (Fin 3001) (Fin (1 / 2)) (Fin (1 / 2)) (Fin 2000)
       = Inr \<lparr>animationStartTime = Some (Zero False), lastDiceValue = Some (Fin 5),
              faceDrawn = Fin 5, rollDoneCalls = 1\<rparr>"
    by (simp add: animateDiceFace_completion [OF h1 h2 h3] num_of_int_def)
  moreover
  have "animateDiceFace (Some (Fin 1000)) (Some (Fin 2)) \<lparr>dice_value = 5, rolling = True\<rparr>
         (Fin 3001) (Fin (1 / 2)) (Fin (1 / 2)) (Fin 2000)
       = Inr \<lparr>animationStartTime = Some (Zero False), lastDiceValue = Some (Fin 5),
              faceDrawn = Fin 2, rollDoneCalls = 1\<rparr>"
    by (simp add: animateDiceFace_completion [OF h1 h2 h3] num_of_int_def)
  ultimately show ?thesis
    using h1 h2 h3 by (intro conjI)
qed

section \<open>Properties of the board model\<close>

lemmas board_defs =
  getBoardMatrix_def matrixLoop.simps rowLoop.simps makeCell_def createCoinInstance_def
  pushCoin_def uuid_def BOARD_SIZE_def cellTypeMask_def playerMask_def colorMask_def
  getPlayerColor_def Let_def

lemma board_counter: "snd (getBoardMatrix src k) = k + 16"
  by (simp add: board_defs)

lemma board_erased:
  "map (map eraseCoinIds) (fst (getBoardMatrix src k))
   = map (map eraseCoinIds) (fst (getBoardMatrix (\<lambda>n. []) 0))"
  by (simp add: board_defs eraseCoinIds_def)

lemma board_cells_with_coins:
  "filter (\<lambda>cell. firstCoin cell \<noteq> None) (concat (fst (getBoardMatrix src k)))
   = map (\<lambda>(n, p, r, c, paint).
            \<lparr>cell_id = r * 15 + c, cell_position = \<lparr>row = r, col = c\<rparr>,
             cell_type = HOME, cell_player = None, cell_color = paint,
             cell_coins = [\<lparr>coin_id = src (k + n), coin_player = p,
                            coin_position = \<lparr>row = r, col = c\<rparr>\<rparr>]\<rparr>)
       [(0, RED, 2, 2, C_RED), (1, RED, 2, 3, C_RED),
        (2, GREEN, 2, 11, C_GREEN), (3, GREEN, 2, 12, C_GREEN),
        (4, RED, 3, 2, C_RED), (5, RED, 3, 3, C_RED),
        (6, GREEN, 3, 11, C_GREEN), (7, GREEN, 3, 12, C_GREEN),
        (8, BLUE, 11, 2, C_BLUE), (9, BLUE, 11, 3, C_BLUE),
        (10, YELLOW, 11, 11, C_YELLOW), (11, YELLOW, 11, 12, C_YELLOW),
        (12, BLUE, 12, 2, C_BLUE), (13, BLUE, 12, 3, C_BLUE),
        (14, YELLOW, 12, 11, C_YELLOW), (15, YELLOW, 12, 12, C_YELLOW)]"
  by (simp add: board_defs firstCoin_def) (simp add: eval_nat_numeral)

lemma board_size:
  "length (fst (getBoardMatrix src k)) = 15"
  "\<forall>cells \<in> set (fst (getBoardMatrix src k)). length cells = 15"
  by (simp_all add: board_defs)

lemma board_cell_2_2:
  "fst (getBoardMatrix src k) ! 2 ! 2
   = \<lparr>cell_id = 32, cell_position = \<lparr>row = 2, col = 2\<rparr>, cell_type = HOME,
      cell_player = None, cell_color = C_RED,
      cell_coins = [\<lparr>coin_id = src k, coin_player = RED,
                     coin_position = \<lparr>row = 2, col = 2\<rparr>\<rparr>]\<rparr>"
  by (simp add: board_defs)

lemma coins_of_cells_with_coins:
  "concat (map cell_coins (filter (\<lambda>cell. firstCoin cell \<noteq> None) cells))
   = concat (map cell_coins cells)"
  by (induction cells) (auto simp: firstCoin_def split: list.splits)

lemma board_coins:
  "concat (map cell_coins (concat (fst (getBoardMatrix src k))))
   = map (\<lambda>(n, p, r, c).
            \<lparr>coin_id = src (k + n), coin_player = p, coin_position = \<lparr>row = r, col = c\<rparr>\<rparr>)
       [(0, RED, 2, 2), (1, RED, 2, 3), (2, GREEN, 2, 11), (3, GREEN, 2, 12),
        (4, RED, 3, 2), (5, RED, 3, 3), (6, GREEN, 3, 11), (7, GREEN, 3, 12),
        (8, BLUE, 11, 2), (9, BLUE, 11, 3), (10, YELLOW, 11, 11), (11, YELLOW, 11, 12),
        (12, BLUE, 12, 2), (13, BLUE, 12, 3), (14, YELLOW, 12, 11), (15, YELLOW, 12, 12)]"
proof -
  have "concat (map cell_coins (concat (fst (getBoardMatrix src k))))
        = concat (map cell_coins (filter (\<lambda>cell. firstCoin cell \<noteq> None)
            (concat (fst (getBoardMatrix src k)))))"
    by (simp only: coins_of_cells_with_coins)
  also have "\<dots> = map (\<lambda>(n, p, r, c).
            \<lparr>coin_id = src (k + n), coin_player = p, coin_position = \<lparr>row = r, col = c\<rparr>\<rparr>)
       [(0, RED, 2, 2), (1, RED, 2, 3), (2, GREEN, 2, 11), (3, GREEN, 2, 12),
        (4, RED, 3, 2), (5, RED, 3, 3), (6, GREEN, 3, 11), (7, GREEN, 3, 12),
        (8, BLUE, 11, 2), (9, BLUE, 11, 3), (10, YELLOW, 11, 11), (11, YELLOW, 11, 12),
        (12, BLUE, 12, 2), (13, BLUE, 12, 3), (14, YELLOW, 12, 11), (15, YELLOW, 12, 12)]"
    unfolding board_cells_with_coins by simp
  finally show ?thesis .
qed

text \<open>\<^verbatim>\<open>createPlayer\<close> reads \<^verbatim>\<open>coins[0]\<close> only of cells that have one.\<close>

lemma createPlayer_reads_first_coins:
  "player_coins (createPlayer cs p)
   = List.map_filter firstCoin
       (filter (\<lambda>cell. map_option coin_player (firstCoin cell) = Some p) cs)"
  by (induction cs)
     (auto simp: createPlayer_def firstCoin_def List.map_filter_simps split: list.splits)

lemma initial_players:
  "players (fst (initiateGameState src k))
   = map (createPlayer (filter (\<lambda>cell. firstCoin cell \<noteq> None)
            (concat (fst (getBoardMatrix src k)))))
       [RED, GREEN, YELLOW, BLUE]"
  by (simp add: initiateGameState_def case_prod_beta Let_def)

text \<open>
  Claim C1, as stated, fails: the coin ids come from \<^verbatim>\<open>uuid()\<close>, a random
  generator, and a second invocation draws the next sixteen of them. With a generator
  that never repeats an id, the board of a second invocation differs from the board of
  the first.
\<close>

theorem getBoardMatrix_coin_ids_counterexample:
  "fst (getBoardMatrix example_uuids (snd (getBoardMatrix example_uuids 0)))
   \<noteq> fst (getBoardMatrix example_uuids 0)"
proof
  assume "fst (getBoardMatrix example_uuids (snd (getBoardMatrix example_uuids 0)))
          = fst (getBoardMatrix example_uuids 0)"
  then have "fst (getBoardMatrix example_uuids 16) ! 2 ! 2
             = fst (getBoardMatrix example_uuids 0) ! 2 ! 2"
    by (simp add: board_counter)
  then have "example_uuids 16 = example_uuids 0"
    by (simp add: board_cell_2_2)
  then have "length (example_uuids 16) = length (example_uuids 0)"
    by simp
  then show False
    by (simp add: example_uuids_def)
qed

text \<open>
  Claim C1, amended. \<^verbatim>\<open>getBoardMatrix\<close> is deterministic in every field but the
  coin ids: whatever the generator yields, two invocations return boards with the same
  cell ids, positions, types, owners and colours and the same coins (owner and
  position) in the same cells. The sixteen coin ids are the next sixteen results of
  the generator, in row-major order of the cells.
\<close>

theorem getBoardMatrix_deterministic_up_to_coin_ids:
  "map (map eraseCoinIds) (fst (getBoardMatrix src k))
     = map (map eraseCoinIds) (fst (getBoardMatrix src' k'))
   \<and> map coin_id (concat (map cell_coins (concat (fst (getBoardMatrix src k)))))
     = map (\<lambda>n. src (k + n)) [0, 1, 2, 3, 4, 5, 6, 7, 8, 9, 10, 11, 12, 13, 14, 15]
   \<and> snd (getBoardMatrix src k) = k + 16"
proof (intro conjI)
  show "map (map eraseCoinIds) (fst (getBoardMatrix src k))
     = map (map eraseCoinIds) (fst (getBoardMatrix src' k'))"
    using board_erased [of src k] board_erased [of src' k'] by simp
next
  show "map coin_id (concat (map cell_coins (concat (fst (getBoardMatrix src k)))))
     = map (\<lambda>n. src (k + n)) [0, 1, 2, 3, 4, 5, 6, 7, 8, 9, 10, 11, 12, 13, 14, 15]"
    by (simp add: board_coins)
next
  show "snd (getBoardMatrix src k) = k + 16"
    by (rule board_counter)
qed

theorem getBoardMatrix_deterministic_up_to_coin_ids_witness:
  "map (map eraseCoinIds) (fst (getBoardMatrix example_uuids 0))
     = map (map eraseCoinIds) (fst (getBoardMatrix example_uuids 16))
   \<and> map coin_id (concat (map cell_coins (concat (fst (getBoardMatrix example_uuids 16)))))
     = map example_uuids [16, 17, 18, 19, 20, 21, 22, 23, 24, 25, 26, 27, 28, 29, 30, 31]
   \<and> snd (getBoardMatrix example_uuids 16) = 32"
  using getBoardMatrix_deterministic_up_to_coin_ids [of example_uuids 0 example_uuids 16]
    getBoardMatrix_deterministic_up_to_coin_ids [of example_uuids 16 example_uuids 0]
  by simp

text \<open>
  Claim C6. The initial game state holds sixteen coins, four of each player, on the
  board and in the players' coin lists alike; the coins of Red stand at rows 2-3,
  columns 2-3, those of Green at rows 2-3, columns 11-12, those of Blue at rows
  11-12, columns 2-3 and those of Yellow at rows 11-12, columns 11-12. The current
  player is Red and the dice state is \<open>{value: 3, rolling: false}\<close>. It holds
  whatever ids the generator yields.
\<close>

theorem initiateGameState_layout:
  "currentPlayer (fst (initiateGameState src k)) = RED
   \<and> diceState (fst (initiateGameState src k)) = \<lparr>dice_value = 3, rolling = False\<rparr>
   \<and> map (\<lambda>p. (player_id p,
                map (\<lambda>c. (coin_player c, row (coin_position c), col (coin_position c)))
                  (player_coins p)))
        (players (fst (initiateGameState src k)))
     = [(RED, [(RED, 2, 2), (RED, 2, 3), (RED, 3, 2), (RED, 3, 3)]),
        (GREEN, [(GREEN, 2, 11), (GREEN, 2, 12), (GREEN, 3, 11), (GREEN, 3, 12)]),
        (YELLOW, [(YELLOW, 11, 11), (YELLOW, 11, 12), (YELLOW, 12, 11), (YELLOW, 12, 12)]),
        (BLUE, [(BLUE, 11, 2), (BLUE, 11, 3), (BLUE, 12, 2), (BLUE, 12, 3)])]
   \<and> length (concat (map player_coins (players (fst (initiateGameState src k))))) = 16
   \<and> length (concat (map cell_coins (concat (boardMatrix (fst (initiateGameState src k))))))
       = 16
   \<and> (\<forall>p. length (filter (\<lambda>c. coin_player c = p)
              (concat (map cell_coins (concat (boardMatrix (fst (initiateGameState src k)))))))
            = 4)
   \<and> map player_coins (players (fst (initiateGameState src k)))
       = map (\<lambda>p. filter (\<lambda>c. coin_player c = p)
                (concat (map cell_coins (concat (boardMatrix (fst (initiateGameState src k)))))))
           [RED, GREEN, YELLOW, BLUE]"
proof (intro conjI allI)
  show "currentPlayer (fst (initiateGameState src k)) = RED"
    by (simp add: initial_state_fields)
  show "diceState (fst (initiateGameState src k)) = \<lparr>dice_value = 3, rolling = False\<rparr>"
    by (simp add: initial_state_fields)
  show "map (\<lambda>p. (player_id p,
                map (\<lambda>c. (coin_player c, row (coin_position c), col (coin_position c)))
                  (player_coins p)))
        (players (fst (initiateGameState src k)))
     = [(RED, [(RED, 2, 2), (RED, 2, 3), (RED, 3, 2), (RED, 3, 3)]),
        (GREEN, [(GREEN, 2, 11), (GREEN, 2, 12), (GREEN, 3, 11), (GREEN, 3, 12)]),
        (YELLOW, [(YELLOW, 11, 11), (YELLOW, 11, 12), (YELLOW, 12, 11), (YELLOW, 12, 12)]),
        (BLUE, [(BLUE, 11, 2), (BLUE, 11, 3), (BLUE, 12, 2), (BLUE, 12, 3)])]"
    unfolding initial_players board_cells_with_coins
    by (simp add: createPlayer_def firstCoin_def)
  show "length (concat (map player_coins (players (fst (initiateGameState src k))))) = 16"
    unfolding initial_players board_cells_with_coins
    by (simp add: createPlayer_def firstCoin_def)
  show "length (concat (map cell_coins (concat (boardMatrix (fst (initiateGameState src k))))))
       = 16"
    by (simp add: initial_state_fields board_coins)
  show "length (filter (\<lambda>c. coin_player c = p)
              (concat (map cell_coins (concat (boardMatrix (fst (initiateGameState src k)))))))
            = 4" for p
    by (cases p) (simp_all add: initial_state_fields board_coins)
  show "map player_coins (players (fst (initiateGameState src k)))
       = map (\<lambda>p. filter (\<lambda>c. coin_player c = p)
                (concat (map cell_coins (concat (boardMatrix (fst (initiateGameState src k)))))))
           [RED, GREEN, YELLOW, BLUE]"
    unfolding initial_state_fields(4) board_coins initial_players board_cells_with_coins
    by (simp add: createPlayer_def firstCoin_def)
qed

theorem initiateGameState_layout_witness:
  "map (\<lambda>p. (player_id p, map coin_id (player_coins p)))
        (players (fst (initiateGameState example_uuids 0)))
     = [(RED, map example_uuids [0, 1, 4, 5]), (GREEN, map example_uuids [2, 3, 6, 7]),
        (YELLOW, map example_uuids [10, 11, 14, 15]), (BLUE, map example_uuids [8, 9, 12, 13])]
   \<and> length (concat (map player_coins (players (fst (initiateGameState example_uuids 0)))))
       = 16
   \<and> currentPlayer (fst (initiateGameState example_uuids 0)) = RED"
proof -
  have "map (\<lambda>p. (player_id p, map coin_id (player_coins p)))
        (players (fst (initiateGameState example_uuids 0)))
     = [(RED, map example_uuids [0, 1, 4, 5]), (GREEN, map example_uuids [2, 3, 6, 7]),
        (YELLOW, map example_uuids [10, 11, 14, 15]), (BLUE, map example_uuids [8, 9, 12, 13])]"
    unfolding initial_players board_cells_with_coins
    by (simp add: createPlayer_def firstCoin_def)
  with initiateGameState_layout [of example_uuids 0] show ?thesis
    by blast
qed

text \<open>
  Claim C7, as stated, fails: the coins stand on the home-nest cells, which the cell
  type mask marks 5 (Home) and the player mask 0 (no owner). The cell at row 2,
  column 2 holds a coin of Red; its type is Home, not Start, and it has no owner.
\<close>

theorem coin_cell_not_start_counterexample:
  "fst (getBoardMatrix example_uuids 0) ! 2 ! 2
     = \<lparr>cell_id = 32, cell_position = \<lparr>row = 2, col = 2\<rparr>, cell_type = HOME,
        cell_player = None, cell_color = C_RED,
        cell_coins = [\<lparr>coin_id = ''u'', coin_player = RED,
                       coin_position = \<lparr>row = 2, col = 2\<rparr>\<rparr>]\<rparr>
   \<and> cell_type (fst (getBoardMatrix example_uuids 0) ! 2 ! 2) \<noteq> START
   \<and> cell_player (fst (getBoardMatrix example_uuids 0) ! 2 ! 2) \<noteq> Some RED"
  by (simp add: board_cell_2_2 example_uuids_def)

text \<open>
  Claim C7, amended. In the board of \<^verbatim>\<open>getBoardMatrix\<close> every coin stands on a
  cell of type Home whose owner field is unset, whose colour is the colour of the
  coin's player and whose position is the coin's position.
\<close>

theorem coins_originate_on_home_cells:
  "\<forall>cells \<in> set (fst (getBoardMatrix src k)). \<forall>cell \<in> set cells.
     \<forall>coin \<in> set (cell_coins cell).
       cell_type cell = HOME \<and> cell_player cell = None
       \<and> cell_color cell = getPlayerColor (Some (coin_player coin))
       \<and> coin_position coin = cell_position cell"
proof (intro ballI)
  fix cells cell coin
  assume cells: "cells \<in> set (fst (getBoardMatrix src k))"
    and cell: "cell \<in> set cells" and coin: "coin \<in> set (cell_coins cell)"
  from coin have "firstCoin cell \<noteq> None"
    by (auto simp: firstCoin_def split: list.splits)
  with cells cell
  have "cell \<in> set (filter (\<lambda>cell. firstCoin cell \<noteq> None)
                      (concat (fst (getBoardMatrix src k))))"
    by auto
  then have "cell \<in> set (map (\<lambda>(n, p, r, c, paint).
            \<lparr>cell_id = r * 15 + c, cell_position = \<lparr>row = r, col = c\<rparr>,
             cell_type = HOME, cell_player = None, cell_color = paint,
             cell_coins = [\<lparr>coin_id = src (k + n), coin_player = p,
                            coin_position = \<lparr>row = r, col = c\<rparr>\<rparr>]\<rparr>)
       [(0, RED, 2, 2, C_RED), (1, RED, 2, 3, C_RED),
        (2, GREEN, 2, 11, C_GREEN), (3, GREEN, 2, 12, C_GREEN),
        (4, RED, 3, 2, C_RED), (5, RED, 3, 3, C_RED),
        (6, GREEN, 3, 11, C_GREEN), (7, GREEN, 3, 12, C_GREEN),
        (8, BLUE, 11, 2, C_BLUE), (9, BLUE, 11, 3, C_BLUE),
        (10, YELLOW, 11, 11, C_YELLOW), (11, YELLOW, 11, 12, C_YELLOW),
        (12, BLUE, 12, 2, C_BLUE), (13, BLUE, 12, 3, C_BLUE),
        (14, YELLOW, 12, 11, C_YELLOW), (15, YELLOW, 12, 12, C_YELLOW)])"
    by (simp only: board_cells_with_coins)
  with coin show "cell_type cell = HOME \<and> cell_player cell = None
       \<and> cell_color cell = getPlayerColor (Some (coin_player coin))
       \<and> coin_position coin = cell_position cell"
    by (auto simp: getPlayerColor_def)
qed

theorem coins_originate_on_home_cells_witness:
  "\<exists>cells cell coin.
     cells \<in> set (fst (getBoardMatrix example_uuids 0)) \<and> cell \<in> set cells
     \<and> coin \<in> set (cell_coins cell) \<and> coin_player coin = RED
     \<and> cell_position cell = \<lparr>row = 2, col = 2\<rparr>
     \<and> cell_type cell = HOME \<and> cell_player cell = None
     \<and> cell_color cell = getPlayerColor (Some (coin_player coin))
     \<and> coin_position coin = cell_position cell"
proof -
  let ?b = "fst (getBoardMatrix example_uuids 0)"
  let ?coin = "\<lparr>coin_id = example_uuids 0, coin_player = RED,
                coin_position = \<lparr>row = 2, col = 2\<rparr>\<rparr>"
  have r: "?b ! 2 \<in> set ?b"
    by (rule nth_mem) (simp add: board_size)
  then have "length (?b ! 2) = 15"
    using board_size(2) by blast
  then have c: "?b ! 2 ! 2 \<in> set (?b ! 2)"
    by (intro nth_mem) simp
  have k: "?coin \<in> set (cell_coins (?b ! 2 ! 2))"
    by (simp add: board_cell_2_2)
  have p: "cell_position (?b ! 2 ! 2) = \<lparr>row = 2, col = 2\<rparr>"
    by (simp add: board_cell_2_2)
  from coins_originate_on_home_cells [of example_uuids 0] r c k
  have "cell_type (?b ! 2 ! 2) = HOME \<and> cell_player (?b ! 2 ! 2) = None
       \<and> cell_color (?b ! 2 ! 2) = getPlayerColor (Some (coin_player ?coin))
       \<and> coin_position ?coin = cell_position (?b ! 2 ! 2)"
    by blast
  with r c k p show ?thesis
    by (intro exI [of _ "?b ! 2"] exI [of _ "?b ! 2 ! 2"] exI [of _ ?coin]) simp
qed

end
